theory Spec2Isabelle
  imports Main
begin

section \<open>AirNow sensor platform (homeassistant/components/airnow/sensor.py)\<close>

subsection \<open>Python values, dictionaries and exceptions\<close>

text \<open>
  The payload of the coordinator is typed \<open>Any\<close> in the source. Its values are
  modelled by a small datatype of Python scalars. Floating-point numbers are kept
  abstract (type parameter \<open>'f\<close>): the module never computes with them, it stores them
  and renders two of them into the unique id.
\<close>

datatype 'f pyval =
    PyNone
  | PyBool bool
  | PyInt int
  | PyFloat 'f
  | PyStr string

text \<open>The only exception the expressions of this module can raise on a dictionary.\<close>

datatype py_error = KeyError string

type_synonym 'f pydict = "string \<rightharpoonup> 'f pyval"

text \<open>\<open>d.get(k)\<close>: the value stored under \<open>k\<close>, and \<open>None\<close> when there is none.\<close>

definition dict_get :: "'f pydict \<Rightarrow> string \<Rightarrow> 'f pyval" where
  "dict_get d k = (case d k of None \<Rightarrow> PyNone | Some v \<Rightarrow> v)"

text \<open>\<open>d[k]\<close>: the value stored under \<open>k\<close>; raises \<open>KeyError\<close> when there is none.\<close>

definition dict_getitem :: "'f pydict \<Rightarrow> string \<Rightarrow> py_error + 'f pyval" where
  "dict_getitem d k = (case d k of None \<Rightarrow> Inl (KeyError k) | Some v \<Rightarrow> Inr v)"

text \<open>
  \<open>str.lower()\<close> on the ASCII range: the letters \<open>A\<close> to \<open>Z\<close> (codes 65 to 90) move
  to \<open>a\<close> to \<open>z\<close>, every other character stays. The keys of the table are ASCII
  identifiers.
\<close>

definition lower_char :: "char \<Rightarrow> char" where
  "lower_char c =
     (let n = (of_char c :: nat) in if 65 \<le> n \<and> n \<le> 90 then char_of (n + 32) else c)"

definition lower :: "string \<Rightarrow> string" where
  "lower s = map lower_char s"

subsection \<open>Imported constants\<close>

text \<open>
  The module imports its field names, \<open>DEFAULT_NAME\<close> and \<open>DOMAIN\<close> from
  \<open>const.py\<close> of the integration, and two units from \<open>homeassistant.const\<close>. Neither
  file belongs to the sources at hand, so the values are a parameter of the embedding.
\<close>

record airnow_const =
  ATTR_API_AQI :: string
  ATTR_API_AQI_DESCRIPTION :: string
  ATTR_API_AQI_LEVEL :: string
  ATTR_API_O3 :: string
  ATTR_API_PM25 :: string
  DEFAULT_NAME :: string
  DOMAIN :: string
  CONCENTRATION_MICROGRAMS_PER_CUBIC_METER :: string
  CONCENTRATION_PARTS_PER_MILLION :: string

datatype SensorStateClass = MEASUREMENT | TOTAL | TOTAL_INCREASING

datatype DeviceEntryType = SERVICE

subsection \<open>Module constants\<close>

definition ATTRIBUTION :: string where
  "ATTRIBUTION = ''Data provided by AirNow''"

definition PARALLEL_UPDATES :: int where
  "PARALLEL_UPDATES = 1"

definition ATTR_DESCR :: string where
  "ATTR_DESCR = ''description''"

definition ATTR_LEVEL :: string where
  "ATTR_LEVEL = ''level''"

subsection \<open>The descriptor table\<close>

text \<open>
  \<open>AirNowEntityDescription\<close>: the fields of \<open>SensorEntityDescription\<close> that the table
  sets, and the two callables of the mixin. A callable may raise, so its result is a
  sum with the exception on the left. \<open>extra_state_attributes_fn\<close> is a callable or
  \<open>None\<close>.
\<close>

record 'f AirNowEntityDescription =
  key :: string
  translation_key :: string
  icon :: string
  native_unit_of_measurement :: string
  state_class :: SensorStateClass
  value_fn :: "'f pydict \<Rightarrow> py_error + 'f pyval"
  extra_state_attributes_fn :: "('f pydict \<Rightarrow> py_error + 'f pydict) option"

text \<open>
  The dictionary display of the first entry evaluates its two subscripts from left to
  right; the first missing key raises.
\<close>

definition aqi_extra_state_attributes ::
  "airnow_const \<Rightarrow> 'f pydict \<Rightarrow> py_error + 'f pydict" where
  "aqi_extra_state_attributes K data =
     (case dict_getitem data (ATTR_API_AQI_DESCRIPTION K) of
        Inl e \<Rightarrow> Inl e
      | Inr descr \<Rightarrow>
          (case dict_getitem data (ATTR_API_AQI_LEVEL K) of
             Inl e \<Rightarrow> Inl e
           | Inr level \<Rightarrow> Inr [ATTR_DESCR \<mapsto> descr, ATTR_LEVEL \<mapsto> level]))"

definition SENSOR_TYPES_aqi :: "airnow_const \<Rightarrow> 'f AirNowEntityDescription" where
  "SENSOR_TYPES_aqi K =
     \<lparr> key = ATTR_API_AQI K,
       translation_key = ''aqi'',
       icon = ''mdi:blur'',
       native_unit_of_measurement = ''aqi'',
       state_class = MEASUREMENT,
       value_fn = (\<lambda>data. Inr (dict_get data (ATTR_API_AQI K))),
       extra_state_attributes_fn = Some (aqi_extra_state_attributes K) \<rparr>"

definition SENSOR_TYPES_pm25 :: "airnow_const \<Rightarrow> 'f AirNowEntityDescription" where
  "SENSOR_TYPES_pm25 K =
     \<lparr> key = ATTR_API_PM25 K,
       translation_key = ''pm25'',
       icon = ''mdi:blur'',
       native_unit_of_measurement = CONCENTRATION_MICROGRAMS_PER_CUBIC_METER K,
       state_class = MEASUREMENT,
       value_fn = (\<lambda>data. Inr (dict_get data (ATTR_API_PM25 K))),
       extra_state_attributes_fn = None \<rparr>"

definition SENSOR_TYPES_o3 :: "airnow_const \<Rightarrow> 'f AirNowEntityDescription" where
  "SENSOR_TYPES_o3 K =
     \<lparr> key = ATTR_API_O3 K,
       translation_key = ''o3'',
       icon = ''mdi:blur'',
       native_unit_of_measurement = CONCENTRATION_PARTS_PER_MILLION K,
       state_class = MEASUREMENT,
       value_fn = (\<lambda>data. Inr (dict_get data (ATTR_API_O3 K))),
       extra_state_attributes_fn = None \<rparr>"

definition SENSOR_TYPES :: "airnow_const \<Rightarrow> 'f AirNowEntityDescription list" where
  "SENSOR_TYPES K = [SENSOR_TYPES_aqi K, SENSOR_TYPES_pm25 K, SENSOR_TYPES_o3 K]"

subsection \<open>The coordinator and the sensor entity\<close>

text \<open>
  Of \<open>AirNowDataUpdateCoordinator\<close> the module reads \<open>latitude\<close>, \<open>longitude\<close> and
  \<open>data\<close>, the payload last fetched. The entity keeps a reference to the coordinator
  and writes nothing to it; the record field holds the coordinator as the entity sees
  it when it reads.
\<close>

record 'f AirNowDataUpdateCoordinator =
  latitude :: 'f
  longitude :: 'f
  data :: "'f pydict"

record DeviceInfo =
  entry_type :: DeviceEntryType
  identifiers :: "(string \<times> string) set"
  manufacturer :: string
  name :: string

record 'f AirNowSensor =
  coordinator :: "'f AirNowDataUpdateCoordinator"
  entity_description :: "'f AirNowEntityDescription"
  attr_unique_id :: string
  attr_device_info :: DeviceInfo

text \<open>The two attributes set in the class body, shared by all entities.\<close>

definition attr_attribution :: string where
  "attr_attribution = ATTRIBUTION"

definition attr_has_entity_name :: bool where
  "attr_has_entity_name = True"

text \<open>
  \<open>AirNowSensor.__init__\<close>. The call of the base constructor stores the coordinator
  in the entity. The f-string renders the two coordinates with Python's
  \<open>format\<close>; that rendering of a float is the parameter \<open>fstr\<close>.
\<close>

definition unique_id_of ::
  "('f \<Rightarrow> string) \<Rightarrow> 'f AirNowDataUpdateCoordinator \<Rightarrow> 'f AirNowEntityDescription \<Rightarrow> string" where
  "unique_id_of fstr c description =
     fstr (latitude c) @ ''-'' @ fstr (longitude c) @ ''-'' @ lower (key description)"

definition AirNowSensor_init ::
  "airnow_const \<Rightarrow> ('f \<Rightarrow> string) \<Rightarrow> 'f AirNowDataUpdateCoordinator \<Rightarrow>
     'f AirNowEntityDescription \<Rightarrow> 'f AirNowSensor" where
  "AirNowSensor_init K fstr c description =
     (let uid = unique_id_of fstr c description in
      \<lparr> coordinator = c,
        entity_description = description,
        attr_unique_id = uid,
        attr_device_info =
          \<lparr> entry_type = SERVICE,
            identifiers = {(DOMAIN K, uid)},
            manufacturer = DEFAULT_NAME K,
            name = DEFAULT_NAME K \<rparr> \<rparr>)"

text \<open>The property \<open>native_value\<close>.\<close>

definition native_value :: "'f AirNowSensor \<Rightarrow> py_error + 'f pyval" where
  "native_value self = value_fn (entity_description self) (data (coordinator self))"

text \<open>
  The property \<open>extra_state_attributes\<close>: a function object is truthy, \<open>None\<close> is not.
\<close>

definition extra_state_attributes :: "'f AirNowSensor \<Rightarrow> py_error + 'f pydict option" where
  "extra_state_attributes self =
     (case extra_state_attributes_fn (entity_description self) of
        Some f \<Rightarrow>
          (case f (data (coordinator self)) of Inl e \<Rightarrow> Inl e | Inr attrs \<Rightarrow> Inr (Some attrs))
      | None \<Rightarrow> Inr None)"

subsection \<open>Platform setup\<close>

text \<open>
  \<open>async_setup_entry\<close> looks the coordinator up in \<open>hass.data[DOMAIN][entry_id]\<close>,
  builds the entities and hands them to the callback of the host with the flag
  \<open>False\<close>. The callback is a parameter, as in the source; its result type is left to
  the host.
\<close>

record 'f HomeAssistant =
  hass_data :: "string \<rightharpoonup> (string \<rightharpoonup> 'f AirNowDataUpdateCoordinator)"

record ConfigEntry =
  entry_id :: string

definition async_setup_entry ::
  "airnow_const \<Rightarrow> ('f \<Rightarrow> string) \<Rightarrow> 'f HomeAssistant \<Rightarrow> ConfigEntry \<Rightarrow>
     ('f AirNowSensor list \<Rightarrow> bool \<Rightarrow> 'r) \<Rightarrow> py_error + 'r" where
  "async_setup_entry K fstr hass config_entry async_add_entities =
     (case hass_data hass (DOMAIN K) of
        None \<Rightarrow> Inl (KeyError (DOMAIN K))
      | Some entries \<Rightarrow>
          (case entries (entry_id config_entry) of
             None \<Rightarrow> Inl (KeyError (entry_id config_entry))
           | Some c \<Rightarrow>
               (let entities = map (AirNowSensor_init K fstr c) (SENSOR_TYPES K)
                in Inr (async_add_entities entities False))))"

subsection \<open>Concrete inputs\<close>

text \<open>
  Modelled from the spec: the values of the constants of \<open>const.py\<close> and
  \<open>homeassistant.const\<close>, which are missing from the sources. The spec names the field
  keys \<open>AQI\<close>, \<open>AQI_DESCRIPTION\<close> and \<open>AQI_LEVEL\<close>, speaks of the PM2.5 and the ozone
  descriptor without giving their key strings (written here \<open>PM2.5\<close> and \<open>O3\<close>, after
  the identifiers of the source). It gives no value for the domain, the device name or
  the units, which stand here as sample strings. The general theorems below hold for
  every value of the parameter; this one is the input of the evaluations.
\<close>

definition spec_const :: airnow_const where
  "spec_const =
     \<lparr> ATTR_API_AQI = ''AQI'',
       ATTR_API_AQI_DESCRIPTION = ''AQI_DESCRIPTION'',
       ATTR_API_AQI_LEVEL = ''AQI_LEVEL'',
       ATTR_API_O3 = ''O3'',
       ATTR_API_PM25 = ''PM2.5'',
       DEFAULT_NAME = ''AirNow'',
       DOMAIN = ''airnow'',
       CONCENTRATION_MICROGRAMS_PER_CUBIC_METER = ''ug/m3'',
       CONCENTRATION_PARTS_PER_MILLION = ''ppm'' \<rparr>"

text \<open>
  A coordinator at latitude 40.0 and longitude -75.0. In the evaluations a float is
  given by its decimal text, so that its rendering is the identity.
\<close>

definition coordinator_at_40_75 :: "string pydict \<Rightarrow> string AirNowDataUpdateCoordinator" where
  "coordinator_at_40_75 snapshot =
     \<lparr> latitude = ''40.0'', longitude = ''-75.0'', data = snapshot \<rparr>"

text \<open>
  The snapshot of the scenario in section 8 of the spec, written with the imported
  names as the source would write it; a later duplicate key would win, as in a Python
  dictionary display.
\<close>

definition scenario_snapshot :: "airnow_const \<Rightarrow> 'f pydict" where
  "scenario_snapshot K =
     [ATTR_API_AQI K \<mapsto> PyInt 42,
      ATTR_API_AQI_DESCRIPTION K \<mapsto> PyStr ''Moderate'',
      ATTR_API_AQI_LEVEL K \<mapsto> PyInt 2]"

text \<open>A host whose \<open>hass.data\<close> holds one coordinator for the integration.\<close>

definition hass_with_entry :: "string AirNowDataUpdateCoordinator \<Rightarrow> string HomeAssistant" where
  "hass_with_entry c = \<lparr> hass_data = [''airnow'' \<mapsto> [''entry-1'' \<mapsto> c]] \<rparr>"

section \<open>Auxiliary facts\<close>

lemmas table_defs =
  SENSOR_TYPES_def SENSOR_TYPES_aqi_def SENSOR_TYPES_pm25_def SENSOR_TYPES_o3_def

lemma aqi_in_table: "SENSOR_TYPES_aqi K \<in> set (SENSOR_TYPES K)"
  by (simp add: SENSOR_TYPES_def)

lemma pm25_in_table: "SENSOR_TYPES_pm25 K \<in> set (SENSOR_TYPES K)"
  by (simp add: SENSOR_TYPES_def)

lemma o3_in_table: "SENSOR_TYPES_o3 K \<in> set (SENSOR_TYPES K)"
  by (simp add: SENSOR_TYPES_def)

text \<open>The keys of the table are the three imported field names, in this order.\<close>

lemma SENSOR_TYPES_keys:
  "map key (SENSOR_TYPES K) = [ATTR_API_AQI K, ATTR_API_PM25 K, ATTR_API_O3 K]"
  by (simp add: table_defs)

text \<open>Every \<open>value_fn\<close> of the table is \<open>data.get\<close> at the entry's own key.\<close>

lemma value_fn_table:
  "d \<in> set (SENSOR_TYPES K) \<Longrightarrow> value_fn d snapshot = Inr (dict_get snapshot (key d))"
  by (auto simp: table_defs)

text \<open>The two properties read through the fields that the constructor has set.\<close>

lemma native_value_init:
  "native_value (AirNowSensor_init K fstr c d) = value_fn d (data c)"
  by (simp add: native_value_def AirNowSensor_init_def Let_def)

lemma extra_state_attributes_init:
  "extra_state_attributes (AirNowSensor_init K fstr c d) =
     (case extra_state_attributes_fn d of
        Some f \<Rightarrow> (case f (data c) of Inl e \<Rightarrow> Inl e | Inr attrs \<Rightarrow> Inr (Some attrs))
      | None \<Rightarrow> Inr None)"
  by (simp add: extra_state_attributes_def AirNowSensor_init_def Let_def split: option.split)

text \<open>The three outcomes of the attribute function of the first entry.\<close>

lemma aqi_attributes_present:
  "snapshot (ATTR_API_AQI_DESCRIPTION K) = Some descr \<Longrightarrow>
   snapshot (ATTR_API_AQI_LEVEL K) = Some level \<Longrightarrow>
   aqi_extra_state_attributes K snapshot = Inr [ATTR_DESCR \<mapsto> descr, ATTR_LEVEL \<mapsto> level]"
  by (simp add: aqi_extra_state_attributes_def dict_getitem_def)

lemma aqi_attributes_no_description:
  "snapshot (ATTR_API_AQI_DESCRIPTION K) = None \<Longrightarrow>
   aqi_extra_state_attributes K snapshot = Inl (KeyError (ATTR_API_AQI_DESCRIPTION K))"
  by (simp add: aqi_extra_state_attributes_def dict_getitem_def)

lemma aqi_attributes_no_level:
  "snapshot (ATTR_API_AQI_DESCRIPTION K) = Some descr \<Longrightarrow>
   snapshot (ATTR_API_AQI_LEVEL K) = None \<Longrightarrow>
   aqi_extra_state_attributes K snapshot = Inl (KeyError (ATTR_API_AQI_LEVEL K))"
  by (simp add: aqi_extra_state_attributes_def dict_getitem_def)

text \<open>
  Two entities on one coordinator carry the same device record exactly when their keys
  agree up to case.
\<close>

lemma device_info_eq_iff:
  "attr_device_info (AirNowSensor_init K fstr c d1) = attr_device_info (AirNowSensor_init K fstr c d2)
     \<longleftrightarrow> lower (key d1) = lower (key d2)"
  by (simp add: AirNowSensor_init_def Let_def unique_id_of_def)

text \<open>The entities that setup builds, position by position.\<close>

lemma entities_nth:
  fixes c :: "'f AirNowDataUpdateCoordinator"
  assumes "i < length (SENSOR_TYPES K :: 'f AirNowEntityDescription list)"
  shows "coordinator (map (AirNowSensor_init K fstr c) (SENSOR_TYPES K) ! i) = c"
    and "entity_description (map (AirNowSensor_init K fstr c) (SENSOR_TYPES K) ! i) = SENSOR_TYPES K ! i"
  using assms by (simp_all add: AirNowSensor_init_def Let_def)

subsection \<open>Evaluation of the concrete inputs\<close>

lemma lower_AQI: "lower ''AQI'' = ''aqi''"
  by code_simp

lemma lower_PM25: "lower ''PM2.5'' = ''pm2.5''"
  by code_simp

lemma lower_O3: "lower ''O3'' = ''o3''"
  by code_simp

lemma spec_const_fields:
  "ATTR_API_AQI spec_const = ''AQI''"
  "ATTR_API_AQI_DESCRIPTION spec_const = ''AQI_DESCRIPTION''"
  "ATTR_API_AQI_LEVEL spec_const = ''AQI_LEVEL''"
  "ATTR_API_O3 spec_const = ''O3''"
  "ATTR_API_PM25 spec_const = ''PM2.5''"
  "DEFAULT_NAME spec_const = ''AirNow''"
  "DOMAIN spec_const = ''airnow''"
  by (simp_all add: spec_const_def)

lemma spec_const_distinct:
  "distinct [ATTR_API_AQI spec_const, ATTR_API_AQI_DESCRIPTION spec_const,
             ATTR_API_AQI_LEVEL spec_const, ATTR_API_PM25 spec_const]"
  by (simp add: spec_const_fields)

lemma data_coordinator_at: "data (coordinator_at_40_75 snapshot) = snapshot"
  by (simp add: coordinator_at_40_75_def)

lemma uid_aqi:
  "unique_id_of (\<lambda>s. s) (coordinator_at_40_75 m) (SENSOR_TYPES_aqi spec_const) = ''40.0--75.0-aqi''"
  by (simp add: unique_id_of_def coordinator_at_40_75_def SENSOR_TYPES_aqi_def
        spec_const_fields lower_AQI)

lemma uid_pm25:
  "unique_id_of (\<lambda>s. s) (coordinator_at_40_75 m) (SENSOR_TYPES_pm25 spec_const) = ''40.0--75.0-pm2.5''"
  by (simp add: unique_id_of_def coordinator_at_40_75_def SENSOR_TYPES_pm25_def
        spec_const_fields lower_PM25)

lemma uid_o3:
  "unique_id_of (\<lambda>s. s) (coordinator_at_40_75 m) (SENSOR_TYPES_o3 spec_const) = ''40.0--75.0-o3''"
  by (simp add: unique_id_of_def coordinator_at_40_75_def SENSOR_TYPES_o3_def
        spec_const_fields lower_O3)

lemma scenario_lookup:
  assumes "distinct [ATTR_API_AQI K, ATTR_API_AQI_DESCRIPTION K, ATTR_API_AQI_LEVEL K, ATTR_API_PM25 K]"
  shows "scenario_snapshot K (ATTR_API_AQI K) = Some (PyInt 42)"
    and "scenario_snapshot K (ATTR_API_AQI_DESCRIPTION K) = Some (PyStr ''Moderate'')"
    and "scenario_snapshot K (ATTR_API_AQI_LEVEL K) = Some (PyInt 2)"
    and "scenario_snapshot K (ATTR_API_PM25 K) = None"
  using assms by (auto simp: scenario_snapshot_def)

section \<open>Properties\<close>

text \<open>
  C1. Two entities built on the same coordinator should carry the same device record.
  Evaluated on the coordinator at 40.0, -75.0 for the first two entries of the table:
  the constructor puts the unique id of the entity, which ends in the entry's key, into
  \<open>identifiers\<close>, so the two records differ.
\<close>

theorem device_info_differs_between_entries:
  "identifiers (attr_device_info
      (AirNowSensor_init spec_const (\<lambda>s. s) (coordinator_at_40_75 Map.empty)
         (SENSOR_TYPES_aqi spec_const)))
     = {(''airnow'', ''40.0--75.0-aqi'')}
   \<and> identifiers (attr_device_info
      (AirNowSensor_init spec_const (\<lambda>s. s) (coordinator_at_40_75 Map.empty)
         (SENSOR_TYPES_pm25 spec_const)))
     = {(''airnow'', ''40.0--75.0-pm2.5'')}
   \<and> attr_device_info
      (AirNowSensor_init spec_const (\<lambda>s. s) (coordinator_at_40_75 Map.empty)
         (SENSOR_TYPES_aqi spec_const))
     \<noteq> attr_device_info
      (AirNowSensor_init spec_const (\<lambda>s. s) (coordinator_at_40_75 Map.empty)
         (SENSOR_TYPES_pm25 spec_const))"
  by (simp add: AirNowSensor_init_def Let_def uid_aqi uid_pm25 spec_const_fields)

text \<open>
  C2, as stated: every read of the payload, \<open>native_value\<close> and
  \<open>extra_state_attributes\<close> alike, answers a missing or malformed field with the unknown
  value and never raises. It fails twice. On the empty snapshot the attributes of the
  AQI entity raise \<open>KeyError\<close>; and a field that holds text where a number is expected
  is handed on as it is, not turned into \<open>None\<close>.
\<close>

theorem payload_reads_counterexample:
  "extra_state_attributes
     (AirNowSensor_init spec_const (\<lambda>s. s) (coordinator_at_40_75 Map.empty)
        (SENSOR_TYPES_aqi spec_const))
     = Inl (KeyError ''AQI_DESCRIPTION'')
   \<and> native_value
     (AirNowSensor_init spec_const (\<lambda>s. s) (coordinator_at_40_75 [''AQI'' \<mapsto> PyStr ''n/a''])
        (SENSOR_TYPES_aqi spec_const))
     = Inr (PyStr ''n/a'')"
proof -
  have "aqi_extra_state_attributes spec_const (Map.empty :: string pydict)
          = Inl (KeyError (ATTR_API_AQI_DESCRIPTION spec_const))"
    by (rule aqi_attributes_no_description) simp
  then have "extra_state_attributes
       (AirNowSensor_init spec_const (\<lambda>s. s) (coordinator_at_40_75 Map.empty)
          (SENSOR_TYPES_aqi spec_const))
     = Inl (KeyError ''AQI_DESCRIPTION'')"
    by (simp add: extra_state_attributes_init SENSOR_TYPES_aqi_def data_coordinator_at
          spec_const_fields)
  moreover have "native_value
     (AirNowSensor_init spec_const (\<lambda>s. s) (coordinator_at_40_75 [''AQI'' \<mapsto> PyStr ''n/a''])
        (SENSOR_TYPES_aqi spec_const))
     = Inr (PyStr ''n/a'')"
    by (simp add: native_value_init SENSOR_TYPES_aqi_def data_coordinator_at
          spec_const_fields dict_get_def)
  ultimately show ?thesis by (rule conjI)
qed

text \<open>
  C2, amended. For every entry of the table and every snapshot, \<open>native_value\<close> does
  not raise: it returns what \<open>data.get\<close> finds under the entry's key, which is \<open>None\<close>
  when the key is missing. \<open>extra_state_attributes\<close> returns \<open>None\<close> for the PM2.5 and
  the ozone entity, and for the AQI entity the dictionary of description and level
  whenever the snapshot holds both fields.
\<close>

theorem payload_reads_by_design:
  "(\<forall>d \<in> set (SENSOR_TYPES K).
      native_value (AirNowSensor_init K fstr c d) = Inr (dict_get (data c) (key d))
      \<and> (data c (key d) = None \<longrightarrow> native_value (AirNowSensor_init K fstr c d) = Inr PyNone))
   \<and> extra_state_attributes (AirNowSensor_init K fstr c (SENSOR_TYPES_pm25 K)) = Inr None
   \<and> extra_state_attributes (AirNowSensor_init K fstr c (SENSOR_TYPES_o3 K)) = Inr None
   \<and> (\<forall>descr level.
        data c (ATTR_API_AQI_DESCRIPTION K) = Some descr \<and> data c (ATTR_API_AQI_LEVEL K) = Some level
        \<longrightarrow> extra_state_attributes (AirNowSensor_init K fstr c (SENSOR_TYPES_aqi K))
              = Inr (Some [ATTR_DESCR \<mapsto> descr, ATTR_LEVEL \<mapsto> level]))"
proof (intro conjI ballI allI impI)
  fix d :: "'a AirNowEntityDescription"
  assume d: "d \<in> set (SENSOR_TYPES K)"
  show v: "native_value (AirNowSensor_init K fstr c d) = Inr (dict_get (data c) (key d))"
    by (simp add: native_value_init value_fn_table [OF d])
  assume "data c (key d) = None"
  then show "native_value (AirNowSensor_init K fstr c d) = Inr PyNone"
    by (simp add: v dict_get_def)
next
  show "extra_state_attributes (AirNowSensor_init K fstr c (SENSOR_TYPES_pm25 K)) = Inr None"
    by (simp add: extra_state_attributes_init SENSOR_TYPES_pm25_def)
next
  show "extra_state_attributes (AirNowSensor_init K fstr c (SENSOR_TYPES_o3 K)) = Inr None"
    by (simp add: extra_state_attributes_init SENSOR_TYPES_o3_def)
next
  fix descr level
  assume "data c (ATTR_API_AQI_DESCRIPTION K) = Some descr
            \<and> data c (ATTR_API_AQI_LEVEL K) = Some level"
  then have "aqi_extra_state_attributes K (data c)
               = Inr [ATTR_DESCR \<mapsto> descr, ATTR_LEVEL \<mapsto> level]"
    by (simp add: aqi_attributes_present)
  then show "extra_state_attributes (AirNowSensor_init K fstr c (SENSOR_TYPES_aqi K))
              = Inr (Some [ATTR_DESCR \<mapsto> descr, ATTR_LEVEL \<mapsto> level])"
    by (simp add: extra_state_attributes_init SENSOR_TYPES_aqi_def)
qed

text \<open>
  The amended statement at the scenario snapshot: the PM2.5 entry is in the table and
  its key is missing, both attribute fields are present.
\<close>

theorem payload_reads_by_design_witness:
  "(SENSOR_TYPES_pm25 spec_const :: string AirNowEntityDescription) \<in> set (SENSOR_TYPES spec_const)
   \<and> data (coordinator_at_40_75 (scenario_snapshot spec_const))
        (key (SENSOR_TYPES_pm25 spec_const :: string AirNowEntityDescription)) = None
   \<and> data (coordinator_at_40_75 (scenario_snapshot spec_const))
        (ATTR_API_AQI_DESCRIPTION spec_const) = Some (PyStr ''Moderate'')
   \<and> data (coordinator_at_40_75 (scenario_snapshot spec_const))
        (ATTR_API_AQI_LEVEL spec_const) = Some (PyInt 2)
   \<and> native_value (AirNowSensor_init spec_const (\<lambda>s. s)
         (coordinator_at_40_75 (scenario_snapshot spec_const)) (SENSOR_TYPES_pm25 spec_const))
       = Inr PyNone
   \<and> extra_state_attributes (AirNowSensor_init spec_const (\<lambda>s. s)
         (coordinator_at_40_75 (scenario_snapshot spec_const)) (SENSOR_TYPES_aqi spec_const))
       = Inr (Some [ATTR_DESCR \<mapsto> PyStr ''Moderate'', ATTR_LEVEL \<mapsto> PyInt 2])"
proof -
  let ?c = "coordinator_at_40_75 (scenario_snapshot spec_const)"
  have m: "(SENSOR_TYPES_pm25 spec_const :: string AirNowEntityDescription)
             \<in> set (SENSOR_TYPES spec_const)"
    by (rule pm25_in_table)
  have a: "data ?c (key (SENSOR_TYPES_pm25 spec_const :: string AirNowEntityDescription)) = None"
    using scenario_lookup(4) [OF spec_const_distinct]
    by (simp add: data_coordinator_at SENSOR_TYPES_pm25_def)
  have p: "data ?c (ATTR_API_AQI_DESCRIPTION spec_const) = Some (PyStr ''Moderate'')
           \<and> data ?c (ATTR_API_AQI_LEVEL spec_const) = Some (PyInt 2)"
    using scenario_lookup(2,3) [OF spec_const_distinct]
    by (simp add: data_coordinator_at)
  note t = payload_reads_by_design [of spec_const "\<lambda>s. s" ?c]
  from t m a
  have "native_value (AirNowSensor_init spec_const (\<lambda>s. s) ?c (SENSOR_TYPES_pm25 spec_const))
          = Inr PyNone"
    by blast
  moreover from t p
  have "extra_state_attributes (AirNowSensor_init spec_const (\<lambda>s. s) ?c (SENSOR_TYPES_aqi spec_const))
          = Inr (Some [ATTR_DESCR \<mapsto> PyStr ''Moderate'', ATTR_LEVEL \<mapsto> PyInt 2])"
    by blast
  ultimately show ?thesis using m a p by blast
qed

text \<open>
  C3. For every entry of the table, \<open>value_fn\<close> on a snapshot without the entry's key
  returns \<open>None\<close>; it does not raise.
\<close>

theorem value_fn_missing_key_is_none:
  "\<forall>d \<in> set (SENSOR_TYPES K). \<forall>snapshot.
     snapshot (key d) = None \<longrightarrow> value_fn d snapshot = Inr PyNone"
  by (simp add: table_defs dict_get_def)

theorem value_fn_missing_key_is_none_witness:
  "(SENSOR_TYPES_o3 spec_const :: string AirNowEntityDescription) \<in> set (SENSOR_TYPES spec_const)
   \<and> [''AQI'' \<mapsto> (PyInt 42 :: string pyval)]
        (key (SENSOR_TYPES_o3 spec_const :: string AirNowEntityDescription)) = None
   \<and> value_fn (SENSOR_TYPES_o3 spec_const) [''AQI'' \<mapsto> (PyInt 42 :: string pyval)] = Inr PyNone"
proof -
  have k: "key (SENSOR_TYPES_o3 spec_const :: string AirNowEntityDescription) = ''O3''"
    by (simp add: SENSOR_TYPES_o3_def spec_const_fields)
  show ?thesis
    using value_fn_missing_key_is_none [of spec_const, rule_format, OF o3_in_table,
            of "[''AQI'' \<mapsto> (PyInt 42 :: string pyval)]"]
    by (simp add: k o3_in_table)
qed

text \<open>
  C4. The unique id set by the constructor is the rendering of the latitude, a hyphen,
  the rendering of the longitude, a hyphen, and the key in lower case. Where the
  coordinates render as \<open>40.0\<close> and \<open>-75.0\<close> and the key is \<open>AQI\<close>, it is
  \<open>40.0--75.0-aqi\<close>.
\<close>

theorem unique_id_format:
  "attr_unique_id (AirNowSensor_init K fstr c d)
     = fstr (latitude c) @ ''-'' @ fstr (longitude c) @ ''-'' @ lower (key d)
   \<and> (fstr (latitude c) = ''40.0'' \<and> fstr (longitude c) = ''-75.0'' \<and> key d = ''AQI''
        \<longrightarrow> attr_unique_id (AirNowSensor_init K fstr c d) = ''40.0--75.0-aqi'')"
  by (simp add: AirNowSensor_init_def Let_def unique_id_of_def lower_AQI)

theorem unique_id_format_witness:
  "latitude (coordinator_at_40_75 Map.empty) = ''40.0''
   \<and> longitude (coordinator_at_40_75 Map.empty) = ''-75.0''
   \<and> key (SENSOR_TYPES_aqi spec_const :: string AirNowEntityDescription) = ''AQI''
   \<and> attr_unique_id
        (AirNowSensor_init spec_const (\<lambda>s. s) (coordinator_at_40_75 Map.empty)
           (SENSOR_TYPES_aqi spec_const))
       = ''40.0--75.0-aqi''"
proof -
  have k: "key (SENSOR_TYPES_aqi spec_const :: string AirNowEntityDescription) = ''AQI''"
    by (simp add: SENSOR_TYPES_aqi_def spec_const_fields)
  have l: "latitude (coordinator_at_40_75 Map.empty) = ''40.0''
           \<and> longitude (coordinator_at_40_75 Map.empty) = ''-75.0''"
    by (simp add: coordinator_at_40_75_def)
  from unique_id_format [of spec_const "\<lambda>s. s" "coordinator_at_40_75 Map.empty"
         "SENSOR_TYPES_aqi spec_const"] k l
  show ?thesis by blast
qed

text \<open>
  C5. On a coordinator whose snapshot is that of the scenario (AQI 42, description
  \<open>Moderate\<close>, level 2), the AQI entity reports 42 and exactly the attributes
  description \<open>Moderate\<close> and level 2, and the PM2.5 entity reports \<open>None\<close>, its key
  being absent. The four field names involved are taken to be different strings.
\<close>

theorem scenario_reads:
  assumes "distinct [ATTR_API_AQI K, ATTR_API_AQI_DESCRIPTION K, ATTR_API_AQI_LEVEL K,
                     ATTR_API_PM25 K]"
    and "data c = scenario_snapshot K"
  shows "native_value (AirNowSensor_init K fstr c (SENSOR_TYPES_aqi K)) = Inr (PyInt 42)
    \<and> extra_state_attributes (AirNowSensor_init K fstr c (SENSOR_TYPES_aqi K))
        = Inr (Some [ATTR_DESCR \<mapsto> PyStr ''Moderate'', ATTR_LEVEL \<mapsto> PyInt 2])
    \<and> native_value (AirNowSensor_init K fstr c (SENSOR_TYPES_pm25 K)) = Inr PyNone"
proof (intro conjI)
  note look = scenario_lookup [OF assms(1)]
  show "native_value (AirNowSensor_init K fstr c (SENSOR_TYPES_aqi K)) = Inr (PyInt 42)"
    by (simp add: native_value_init SENSOR_TYPES_aqi_def dict_get_def assms(2) look(1))
  have "aqi_extra_state_attributes K (data c)
          = Inr [ATTR_DESCR \<mapsto> PyStr ''Moderate'', ATTR_LEVEL \<mapsto> PyInt 2]"
    by (rule aqi_attributes_present) (simp_all add: assms(2) look(2,3))
  then show "extra_state_attributes (AirNowSensor_init K fstr c (SENSOR_TYPES_aqi K))
        = Inr (Some [ATTR_DESCR \<mapsto> PyStr ''Moderate'', ATTR_LEVEL \<mapsto> PyInt 2])"
    by (simp add: extra_state_attributes_init SENSOR_TYPES_aqi_def)
  show "native_value (AirNowSensor_init K fstr c (SENSOR_TYPES_pm25 K)) = Inr PyNone"
    by (simp add: native_value_init SENSOR_TYPES_pm25_def dict_get_def assms(2) look(4))
qed

theorem scenario_reads_witness:
  "distinct [ATTR_API_AQI spec_const, ATTR_API_AQI_DESCRIPTION spec_const,
             ATTR_API_AQI_LEVEL spec_const, ATTR_API_PM25 spec_const]
   \<and> data (coordinator_at_40_75 (scenario_snapshot spec_const)) = scenario_snapshot spec_const
   \<and> native_value (AirNowSensor_init spec_const (\<lambda>s. s)
        (coordinator_at_40_75 (scenario_snapshot spec_const)) (SENSOR_TYPES_aqi spec_const))
       = Inr (PyInt 42)
   \<and> extra_state_attributes (AirNowSensor_init spec_const (\<lambda>s. s)
        (coordinator_at_40_75 (scenario_snapshot spec_const)) (SENSOR_TYPES_aqi spec_const))
       = Inr (Some [''description'' \<mapsto> PyStr ''Moderate'', ''level'' \<mapsto> PyInt 2])
   \<and> native_value (AirNowSensor_init spec_const (\<lambda>s. s)
        (coordinator_at_40_75 (scenario_snapshot spec_const)) (SENSOR_TYPES_pm25 spec_const))
       = Inr PyNone"
  using scenario_reads [OF spec_const_distinct data_coordinator_at, of "\<lambda>s. s"]
    spec_const_distinct
  by (simp add: data_coordinator_at ATTR_DESCR_def ATTR_LEVEL_def)

text \<open>
  C6. The PM2.5 and the ozone entry have no attribute function, and an entity built on
  either of them returns \<open>None\<close> from \<open>extra_state_attributes\<close>, whatever the
  coordinator and its snapshot.
\<close>

theorem no_attributes_for_pm25_and_o3:
  "extra_state_attributes_fn (SENSOR_TYPES_pm25 K) = None
   \<and> extra_state_attributes_fn (SENSOR_TYPES_o3 K) = None
   \<and> extra_state_attributes (AirNowSensor_init K fstr c (SENSOR_TYPES_pm25 K)) = Inr None
   \<and> extra_state_attributes (AirNowSensor_init K fstr c (SENSOR_TYPES_o3 K)) = Inr None"
  by (simp add: extra_state_attributes_init SENSOR_TYPES_pm25_def SENSOR_TYPES_o3_def)

text \<open>
  C7. Where \<open>hass.data\<close> holds the coordinator \<open>c\<close> for the config entry,
  \<open>async_setup_entry\<close> calls the callback of the host once, with the flag \<open>False\<close> and
  the list of entities built from the table: as many as the table has entries, the
  entity at each position bound to \<open>c\<close> and to the entry at that position.
\<close>

theorem setup_builds_one_entity_per_entry:
  fixes c :: "'f AirNowDataUpdateCoordinator"
  assumes "hass_data hass (DOMAIN K) = Some entries"
    and "entries (entry_id config_entry) = Some c"
  shows "async_setup_entry K fstr hass config_entry async_add_entities
           = Inr (async_add_entities (map (AirNowSensor_init K fstr c) (SENSOR_TYPES K)) False)
         \<and> length (map (AirNowSensor_init K fstr c) (SENSOR_TYPES K))
             = length (SENSOR_TYPES K :: 'f AirNowEntityDescription list)
         \<and> (\<forall>i < length (SENSOR_TYPES K :: 'f AirNowEntityDescription list).
               coordinator (map (AirNowSensor_init K fstr c) (SENSOR_TYPES K) ! i) = c
               \<and> entity_description (map (AirNowSensor_init K fstr c) (SENSOR_TYPES K) ! i)
                   = SENSOR_TYPES K ! i)"
proof (intro conjI allI impI)
  show "async_setup_entry K fstr hass config_entry async_add_entities
          = Inr (async_add_entities (map (AirNowSensor_init K fstr c) (SENSOR_TYPES K)) False)"
    by (simp add: async_setup_entry_def assms)
  show "length (map (AirNowSensor_init K fstr c) (SENSOR_TYPES K))
          = length (SENSOR_TYPES K :: 'f AirNowEntityDescription list)"
    by simp
next
  fix i
  assume i: "i < length (SENSOR_TYPES K :: 'f AirNowEntityDescription list)"
  show "coordinator (map (AirNowSensor_init K fstr c) (SENSOR_TYPES K) ! i) = c"
    by (rule entities_nth(1) [OF i])
  show "entity_description (map (AirNowSensor_init K fstr c) (SENSOR_TYPES K) ! i)
          = SENSOR_TYPES K ! i"
    by (rule entities_nth(2) [OF i])
qed

text \<open>
  Setup on a host with one entry: the callback receives three entities, whose unique
  ids follow the order of the table.
\<close>

theorem setup_builds_one_entity_per_entry_witness:
  "hass_data (hass_with_entry (coordinator_at_40_75 Map.empty)) (DOMAIN spec_const)
     = Some [''entry-1'' \<mapsto> coordinator_at_40_75 Map.empty]
   \<and> [''entry-1'' \<mapsto> coordinator_at_40_75 Map.empty] (entry_id \<lparr> entry_id = ''entry-1'' \<rparr>)
     = Some (coordinator_at_40_75 Map.empty)
   \<and> async_setup_entry spec_const (\<lambda>s. s) (hass_with_entry (coordinator_at_40_75 Map.empty))
        \<lparr> entry_id = ''entry-1'' \<rparr> (\<lambda>entities update. (map attr_unique_id entities, update))
     = Inr ([''40.0--75.0-aqi'', ''40.0--75.0-pm2.5'', ''40.0--75.0-o3''], False)"
proof -
  let ?c = "coordinator_at_40_75 Map.empty"
  have h: "hass_data (hass_with_entry ?c) (DOMAIN spec_const) = Some [''entry-1'' \<mapsto> ?c]"
    by (simp add: hass_with_entry_def spec_const_fields)
  have e: "[''entry-1'' \<mapsto> ?c] (entry_id \<lparr> entry_id = ''entry-1'' \<rparr>) = Some ?c"
    by simp
  have u: "map attr_unique_id
             (map (AirNowSensor_init spec_const (\<lambda>s. s) ?c) (SENSOR_TYPES spec_const))
             = [''40.0--75.0-aqi'', ''40.0--75.0-pm2.5'', ''40.0--75.0-o3'']"
    by (simp add: SENSOR_TYPES_def AirNowSensor_init_def Let_def uid_aqi uid_pm25 uid_o3)
  have "async_setup_entry spec_const (\<lambda>s. s) (hass_with_entry ?c) \<lparr> entry_id = ''entry-1'' \<rparr>
          (\<lambda>entities update. (map attr_unique_id entities, update))
        = Inr (map attr_unique_id
                 (map (AirNowSensor_init spec_const (\<lambda>s. s) ?c) (SENSOR_TYPES spec_const)), False)"
    using setup_builds_one_entity_per_entry
            [OF h e, of "\<lambda>s. s" "\<lambda>entities update. (map attr_unique_id entities, update)"]
    by (rule conjunct1)
  then have "async_setup_entry spec_const (\<lambda>s. s) (hass_with_entry ?c) \<lparr> entry_id = ''entry-1'' \<rparr>
          (\<lambda>entities update. (map attr_unique_id entities, update))
        = Inr ([''40.0--75.0-aqi'', ''40.0--75.0-pm2.5'', ''40.0--75.0-o3''], False)"
    unfolding u .
  with h e show ?thesis by (intro conjI)
qed

text \<open>
  C8. For every entry of the table, \<open>value_fn\<close> is the same on a snapshot that maps the
  entry's key to \<open>None\<close> and on one that lacks the key: both give \<open>None\<close>.
\<close>

theorem null_value_same_as_missing_key:
  assumes "d \<in> set (SENSOR_TYPES K)"
    and "with_null (key d) = Some PyNone"
    and "without (key d) = None"
  shows "value_fn d with_null = value_fn d without \<and> value_fn d without = Inr PyNone"
  using assms by (simp add: value_fn_table dict_get_def)

theorem null_value_same_as_missing_key_witness:
  "(SENSOR_TYPES_aqi spec_const :: string AirNowEntityDescription) \<in> set (SENSOR_TYPES spec_const)
   \<and> [''AQI'' \<mapsto> (PyNone :: string pyval), ''O3'' \<mapsto> PyInt 7]
         (key (SENSOR_TYPES_aqi spec_const :: string AirNowEntityDescription)) = Some PyNone
   \<and> [''O3'' \<mapsto> (PyInt 7 :: string pyval)]
         (key (SENSOR_TYPES_aqi spec_const :: string AirNowEntityDescription)) = None
   \<and> value_fn (SENSOR_TYPES_aqi spec_const) [''AQI'' \<mapsto> (PyNone :: string pyval), ''O3'' \<mapsto> PyInt 7]
       = value_fn (SENSOR_TYPES_aqi spec_const) [''O3'' \<mapsto> PyInt 7]
   \<and> value_fn (SENSOR_TYPES_aqi spec_const) [''O3'' \<mapsto> (PyInt 7 :: string pyval)] = Inr PyNone"
proof -
  have k: "key (SENSOR_TYPES_aqi spec_const :: string AirNowEntityDescription) = ''AQI''"
    by (simp add: SENSOR_TYPES_aqi_def spec_const_fields)
  show ?thesis
    using null_value_same_as_missing_key
            [of "SENSOR_TYPES_aqi spec_const :: string AirNowEntityDescription" spec_const
                "[''AQI'' \<mapsto> PyNone, ''O3'' \<mapsto> PyInt 7]" "[''O3'' \<mapsto> PyInt 7]"]
    by (simp add: k aqi_in_table)
qed

text \<open>
  C10. The cap on parallel updates that the module hands to the scheduler of the host,
  \<open>PARALLEL_UPDATES\<close>, is 1.
\<close>

theorem parallel_updates_is_one: "PARALLEL_UPDATES = 1"
  by (simp add: PARALLEL_UPDATES_def)

end
